theory Spec2Isabelle
  imports Main
begin

section \<open>The embed component of the player (vime-embed)\<close>

text \<open>
  The component wraps a third-party player in an \<^verbatim>\<open>iframe\<close>. It composes the
  iframe's URL from \<^verbatim>\<open>embedSrc\<close> and \<^verbatim>\<open>params\<close>, defers the load until the
  element enters the viewport (\<^verbatim>\<open>lazy\<close>), warms up connections before that, filters
  the messages of the window by their source and origin, and posts messages into the
  iframe. The model follows the class \<^verbatim>\<open>Embed\<close> member by member: the instance is a
  record, the two module-level variables (\<^verbatim>\<open>idCount\<close>, \<^verbatim>\<open>connected\<close>) are a second
  record threaded through every method, and what a method does to the outside (events
  emitted, calls of \<^verbatim>\<open>preconnect\<close>, of \<^verbatim>\<open>contentWindow.postMessage\<close>, of the viewport
  observer) is the list of effects it returns, in the order of the calls.
\<close>

subsection \<open>Values of the host language\<close>

text \<open>
  Message payloads and parameter values are arbitrary values. Numbers are integers here
  (the only thing the component asks of a number is whether it is zero).
\<close>

datatype jsval =
    JUndefined
  | JNull
  | JBool bool
  | JNum int
  | JStr string
  | JObj "(string \<times> jsval) list"

text \<open>The test of \<^verbatim>\<open>if (message)\<close>: every object is true, the empty string and 0 are not.\<close>

fun truthy :: "jsval \<Rightarrow> bool" where
  "truthy JUndefined = False"
| "truthy JNull = False"
| "truthy (JBool b) = b"
| "truthy (JNum n) = (n \<noteq> 0)"
| "truthy (JStr s) = (s \<noteq> [])"
| "truthy (JObj fs) = True"

fun nullish :: "jsval \<Rightarrow> bool" where
  "nullish JUndefined = True"
| "nullish JNull = True"
| "nullish v = False"

text \<open>The operator \<^verbatim>\<open>a ?? b\<close>: \<^verbatim>\<open>b\<close> when \<^verbatim>\<open>a\<close> is null or undefined, \<^verbatim>\<open>a\<close> otherwise.\<close>

definition coalesce :: "jsval \<Rightarrow> jsval \<Rightarrow> jsval" where
  "coalesce a b = (if nullish a then b else a)"

type_synonym Params = "(string \<times> jsval) list"

text \<open>
  A reference to a window as the handler compares it with \<^verbatim>\<open>===\<close>: undefined (what
  \<^verbatim>\<open>this.iframe?.contentWindow\<close> is while there is no iframe), null, or a window, named
  by a number. Strict equality of two such references is equality of these values.
\<close>

datatype handle = HUndefined | HNull | HWindow nat

record iframe_el =
  contentWindow :: handle

record MessageEvent =
  ev_source :: handle
  ev_origin :: string
  ev_data :: jsval

subsection \<open>The instance, the module variables, the collaborators\<close>

record embed =
  iframe_id :: "string option"
  intersectionObserverCleanup :: bool
  iframe :: "iframe_el option"
  srcWithParams :: string
  hasEnteredViewport :: bool
  embedSrc :: string
  mediaTitle :: string
  lazy :: bool
  params :: Params
  origin :: "string option"
  preconnections :: "string list"
  decoder :: "(jsval \<Rightarrow> jsval) option"

text \<open>The field initialisers of the class.\<close>

definition new_Embed :: embed where
  "new_Embed =
     \<lparr> iframe_id = None,
       intersectionObserverCleanup = False,
       iframe = None,
       srcWithParams = [],
       hasEnteredViewport = False,
       embedSrc = [],
       mediaTitle = [],
       lazy = True,
       params = [],
       origin = None,
       preconnections = [],
       decoder = None \<rparr>"

text \<open>\<^verbatim>\<open>let idCount = 0; const connected = new Set();\<close>\<close>

record module_vars =
  idCount :: nat
  connected :: "string set"

definition module_init :: module_vars where
  "module_init = \<lparr> idCount = 0, connected = {} \<rparr>"

text \<open>
  The functions the component imports and does not define are parameters of the model:
  \<^verbatim>\<open>appendParamsToURL\<close> and \<^verbatim>\<open>preconnect\<close> of \<^verbatim>\<open>utils/network\<close> (the latter by the
  boolean it returns for a URL), and the built-in \<^verbatim>\<open>JSON.stringify\<close>.
\<close>

record env =
  appendParamsToURL :: "string \<Rightarrow> Params \<Rightarrow> string"
  preconnect :: "string \<Rightarrow> bool"
  JSON_stringify :: "jsval \<Rightarrow> jsval"

datatype effect =
    Preconnect string
  | EmbedSrcChange string
  | EmbedMessage jsval
  | EmbedLoaded
  | ContentWindowPostMessage nat jsval string
  | ObserveViewport
  | DisposeViewportObserver

text \<open>
  Modelled from the spec: \<^verbatim>\<open>isString\<close> of \<^verbatim>\<open>utils/unit\<close> is not among the sources. The
  property \<^verbatim>\<open>origin\<close> is a string or undefined, and the check lets every origin pass
  when no expected origin was configured.
\<close>

definition isString :: "string option \<Rightarrow> bool" where
  "isString v = (v \<noteq> None)"

subsection \<open>Inbound messages\<close>

text \<open>\<^verbatim>\<open>this.iframe?.contentWindow\<close>\<close>

definition iframe_contentWindow :: "embed \<Rightarrow> handle" where
  "iframe_contentWindow e =
     (case iframe e of None \<Rightarrow> HUndefined | Some el \<Rightarrow> contentWindow el)"

definition originMatches :: "embed \<Rightarrow> MessageEvent \<Rightarrow> bool" where
  "originMatches e ev =
     (ev_source ev = iframe_contentWindow e
      \<and> (\<not> isString (origin e) \<or> origin e = Some (ev_origin ev)))"

text \<open>\<^verbatim>\<open>this.decoder?.(e.data) ?? e.data\<close>\<close>

definition decoded :: "embed \<Rightarrow> MessageEvent \<Rightarrow> jsval" where
  "decoded e ev =
     coalesce (case decoder e of None \<Rightarrow> JUndefined | Some d \<Rightarrow> d (ev_data ev)) (ev_data ev)"

definition onWindowMessage :: "embed \<Rightarrow> MessageEvent \<Rightarrow> effect list" where
  "onWindowMessage e ev =
     (if \<not> originMatches e ev then []
      else if truthy (decoded e ev) then [EmbedMessage (decoded e ev)]
      else [])"

subsection \<open>The composed URL and the connection hints\<close>

text \<open>
  How the framework runs the watchers: a method decorated with \<^verbatim>\<open>@Watch('x')\<close> runs,
  inside the assignment, when member \<^verbatim>\<open>x\<close> of a live instance is assigned a value that
  differs (by \<^verbatim>\<open>!==\<close>) from the one it holds; an assignment of the value already
  held changes nothing and runs nothing. A string differs when its characters do. An
  object or array differs when it is another object, also with equal contents: the
  operations below that assign \<^verbatim>\<open>params\<close> and \<^verbatim>\<open>preconnections\<close> stand for the
  assignment of a new object.

  An instance is live from its first \<^verbatim>\<open>connectedCallback\<close> on: the framework makes the
  watchers ready immediately before it calls that method, and not before. The method
  stores the disposer of the viewport observer before it does anything else, and nothing
  ever clears that field, so an instance is live exactly when it holds a disposer. On an
  instance that is not live an assignment only stores the value.
\<close>

definition live :: "embed \<Rightarrow> bool" where
  "live e = intersectionObserverCleanup e"

text \<open>\<^verbatim>\<open>if (preconnect(url)) connected.add(key);\<close>\<close>

definition call_preconnect ::
  "env \<Rightarrow> string \<Rightarrow> string \<Rightarrow> module_vars \<Rightarrow> module_vars \<times> effect list" where
  "call_preconnect env url key m =
     (if preconnect env url then m \<lparr> connected := insert key (connected m) \<rparr> else m,
      [Preconnect url])"

definition srcWithParamsChange ::
  "env \<Rightarrow> embed \<Rightarrow> module_vars \<Rightarrow> embed \<times> module_vars \<times> effect list" where
  "srcWithParamsChange env e m =
     (case (if \<not> hasEnteredViewport e \<and> embedSrc e \<notin> connected m
            then call_preconnect env (srcWithParams e) (embedSrc e) m
            else (m, []))
      of (m', out) \<Rightarrow> (e, m', out @ [EmbedSrcChange (srcWithParams e)]))"

text \<open>The assignment \<^verbatim>\<open>this.srcWithParams = v\<close>, with its watcher.\<close>

definition assign_srcWithParams ::
  "env \<Rightarrow> string \<Rightarrow> embed \<Rightarrow> module_vars \<Rightarrow> embed \<times> module_vars \<times> effect list" where
  "assign_srcWithParams env v e m =
     (if v = srcWithParams e then (e, m, [])
      else if live e then srcWithParamsChange env (e \<lparr> srcWithParams := v \<rparr>) m
      else (e \<lparr> srcWithParams := v \<rparr>, m, []))"

definition srcChange ::
  "env \<Rightarrow> embed \<Rightarrow> module_vars \<Rightarrow> embed \<times> module_vars \<times> effect list" where
  "srcChange env e m =
     assign_srcWithParams env (appendParamsToURL env (embedSrc e) (params e)) e m"

text \<open>The body of the \<^verbatim>\<open>forEach\<close>, over the list that \<^verbatim>\<open>filter\<close> has returned.\<close>

fun forEach_preconnect ::
  "env \<Rightarrow> string list \<Rightarrow> module_vars \<Rightarrow> module_vars \<times> effect list" where
  "forEach_preconnect env [] m = (m, [])"
| "forEach_preconnect env (c # cs) m =
     (case call_preconnect env c c m of (m1, o1) \<Rightarrow>
        (case forEach_preconnect env cs m1 of (m2, o2) \<Rightarrow> (m2, o1 @ o2)))"

text \<open>
  \<^verbatim>\<open>filter\<close> builds its whole result, against the registry as it is at that moment,
  before \<^verbatim>\<open>forEach\<close> visits the first entry.
\<close>

definition preconnectionsChange ::
  "env \<Rightarrow> embed \<Rightarrow> module_vars \<Rightarrow> embed \<times> module_vars \<times> effect list" where
  "preconnectionsChange env e m =
     (if hasEnteredViewport e then (e, m, [])
      else (case forEach_preconnect env
                   (filter (\<lambda>connection. connection \<notin> connected m) (preconnections e)) m
            of (m', out) \<Rightarrow> (e, m', out)))"

subsection \<open>Life cycle\<close>

text \<open>
  \<^verbatim>\<open>onElementEntersViewport\<close> (of \<^verbatim>\<open>utils/dom\<close>) is not among the sources: registering
  with it and calling the disposer it returns are effects, and the callback given to it
  is the function \<open>enterViewport\<close>, which the environment may call.
\<close>

definition enterViewport :: "embed \<Rightarrow> embed" where
  "enterViewport e = e \<lparr> hasEnteredViewport := True \<rparr>"

definition connectedCallback ::
  "env \<Rightarrow> embed \<Rightarrow> module_vars \<Rightarrow> embed \<times> module_vars \<times> effect list" where
  "connectedCallback env e m =
     (case srcChange env (e \<lparr> intersectionObserverCleanup := True \<rparr>) m
      of (e', m', out) \<Rightarrow> (e', m', ObserveViewport # out))"

definition disconnectedCallback :: "embed \<Rightarrow> effect list" where
  "disconnectedCallback e =
     (if intersectionObserverCleanup e then [DisposeViewportObserver] else [])"

definition digit_char :: "nat \<Rightarrow> char" where
  "digit_char d = char_of (48 + d)"

fun string_of_nat :: "nat \<Rightarrow> string" where
  "string_of_nat n =
     (if n < 10 then [digit_char n] else string_of_nat (n div 10) @ [digit_char (n mod 10)])"

declare string_of_nat.simps [simp del]

definition genIframeId :: "embed \<Rightarrow> module_vars \<Rightarrow> embed \<times> module_vars" where
  "genIframeId e m =
     (e \<lparr> iframe_id := Some (''vime-iframe-'' @ string_of_nat (idCount m + 1)) \<rparr>,
      m \<lparr> idCount := idCount m + 1 \<rparr>)"

definition componentWillLoad :: "embed \<Rightarrow> module_vars \<Rightarrow> embed \<times> module_vars" where
  "componentWillLoad e m = genIframeId e m"

definition onLoad :: "embed \<Rightarrow> effect list" where
  "onLoad e = [EmbedLoaded]"

subsection \<open>Outbound messages\<close>

text \<open>
  \<^verbatim>\<open>this.iframe?.contentWindow?.postMessage(JSON.stringify(message), (target ?? '*'))\<close>:
  the optional chain ends the expression, arguments unevaluated, when there is no iframe
  or no content window.
\<close>

definition postMessage :: "env \<Rightarrow> embed \<Rightarrow> jsval \<Rightarrow> string option \<Rightarrow> effect list" where
  "postMessage env e message target =
     (case iframe_contentWindow e of
        HWindow w \<Rightarrow>
          [ContentWindowPostMessage w (JSON_stringify env message)
             (case target of None \<Rightarrow> ''*'' | Some t \<Rightarrow> t)]
      | HNull \<Rightarrow> []
      | HUndefined \<Rightarrow> [])"

subsection \<open>Rendering\<close>

record iframe_vnode =
  vn_id :: "string option"
  vn_title :: string
  vn_src :: "string option"
  vn_allowfullscreen :: string
  vn_allow :: string

definition render :: "embed \<Rightarrow> iframe_vnode" where
  "render e =
     \<lparr> vn_id = iframe_id e,
       vn_title = mediaTitle e,
       vn_src = (if \<not> lazy e \<or> hasEnteredViewport e then Some (srcWithParams e) else None),
       vn_allowfullscreen = ''1'',
       vn_allow = ''autoplay; encrypted-media; picture-in-picture'' \<rparr>"

text \<open>The \<^verbatim>\<open>ref\<close> callback of the iframe: \<^verbatim>\<open>this.iframe = el\<close>.\<close>

definition set_iframe :: "iframe_el option \<Rightarrow> embed \<Rightarrow> embed" where
  "set_iframe el e = e \<lparr> iframe := el \<rparr>"

subsection \<open>Everything that can happen to an instance\<close>

text \<open>
  The properties are assigned by the owner of the element; only \<^verbatim>\<open>embedSrc\<close>,
  \<^verbatim>\<open>params\<close> and \<^verbatim>\<open>preconnections\<close> have watchers, which run on a live instance.
\<close>

definition set_embedSrc ::
  "env \<Rightarrow> string \<Rightarrow> embed \<Rightarrow> module_vars \<Rightarrow> embed \<times> module_vars \<times> effect list" where
  "set_embedSrc env v e m =
     (if v = embedSrc e then (e, m, [])
      else if live e then srcChange env (e \<lparr> embedSrc := v \<rparr>) m
      else (e \<lparr> embedSrc := v \<rparr>, m, []))"

definition set_params ::
  "env \<Rightarrow> Params \<Rightarrow> embed \<Rightarrow> module_vars \<Rightarrow> embed \<times> module_vars \<times> effect list" where
  "set_params env v e m =
     (if live e then srcChange env (e \<lparr> params := v \<rparr>) m
      else (e \<lparr> params := v \<rparr>, m, []))"

definition set_preconnections ::
  "env \<Rightarrow> string list \<Rightarrow> embed \<Rightarrow> module_vars \<Rightarrow> embed \<times> module_vars \<times> effect list" where
  "set_preconnections env v e m =
     (if live e then preconnectionsChange env (e \<lparr> preconnections := v \<rparr>) m
      else (e \<lparr> preconnections := v \<rparr>, m, []))"

datatype op =
    SetEmbedSrc string
  | SetMediaTitle string
  | SetLazy bool
  | SetParams Params
  | SetOrigin "string option"
  | SetPreconnections "string list"
  | SetDecoder "(jsval \<Rightarrow> jsval) option"
  | ConnectedCallback
  | ComponentWillLoad
  | DisconnectedCallback
  | ViewportEntered
  | WindowMessage MessageEvent
  | PostMessage jsval "string option"
  | IframeLoad
  | IframeRef "iframe_el option"

fun step :: "env \<Rightarrow> op \<Rightarrow> embed \<Rightarrow> module_vars \<Rightarrow> embed \<times> module_vars \<times> effect list" where
  "step env (SetEmbedSrc v) e m = set_embedSrc env v e m"
| "step env (SetMediaTitle v) e m = (e \<lparr> mediaTitle := v \<rparr>, m, [])"
| "step env (SetLazy v) e m = (e \<lparr> lazy := v \<rparr>, m, [])"
| "step env (SetParams v) e m = set_params env v e m"
| "step env (SetOrigin v) e m = (e \<lparr> origin := v \<rparr>, m, [])"
| "step env (SetPreconnections v) e m = set_preconnections env v e m"
| "step env (SetDecoder v) e m = (e \<lparr> decoder := v \<rparr>, m, [])"
| "step env ConnectedCallback e m = connectedCallback env e m"
| "step env ComponentWillLoad e m =
     (case componentWillLoad e m of (e', m') \<Rightarrow> (e', m', []))"
| "step env DisconnectedCallback e m = (e, m, disconnectedCallback e)"
| "step env ViewportEntered e m = (enterViewport e, m, [])"
| "step env (WindowMessage ev) e m = (e, m, onWindowMessage e ev)"
| "step env (PostMessage message target) e m = (e, m, postMessage env e message target)"
| "step env IframeLoad e m = (e, m, onLoad e)"
| "step env (IframeRef el) e m = (set_iframe el e, m, [])"

fun run :: "env \<Rightarrow> op list \<Rightarrow> embed \<Rightarrow> module_vars \<Rightarrow> embed \<times> module_vars \<times> effect list" where
  "run env [] e m = (e, m, [])"
| "run env (x # xs) e m =
     (case step env x e m of (e1, m1, o1) \<Rightarrow>
        (case run env xs e1 m1 of (e2, m2, o2) \<Rightarrow> (e2, m2, o1 @ o2)))"

text \<open>The URLs passed to \<^verbatim>\<open>preconnect\<close> among a list of effects.\<close>

fun hints :: "effect list \<Rightarrow> string list" where
  "hints [] = []"
| "hints (Preconnect u # xs) = u # hints xs"
| "hints (x # xs) = hints xs"

text \<open>The value of \<^verbatim>\<open>hasEnteredViewport\<close> in each state a run goes through.\<close>

fun flags :: "env \<Rightarrow> op list \<Rightarrow> embed \<Rightarrow> module_vars \<Rightarrow> bool list" where
  "flags env [] e m = [hasEnteredViewport e]"
| "flags env (x # xs) e m =
     hasEnteredViewport e # (case step env x e m of (e1, m1, o1) \<Rightarrow> flags env xs e1 m1)"

text \<open>How often a list of booleans goes from false to true, and from true to false.\<close>

fun rises :: "bool list \<Rightarrow> nat" where
  "rises (a # b # bs) = (if \<not> a \<and> b then 1 else 0) + rises (b # bs)"
| "rises bs = 0"

fun falls :: "bool list \<Rightarrow> nat" where
  "falls (a # b # bs) = (if a \<and> \<not> b then 1 else 0) + falls (b # bs)"
| "falls bs = 0"

subsection \<open>Sample collaborators and inputs\<close>

text \<open>
  Modelled from the spec: \<^verbatim>\<open>appendParamsToURL\<close> of \<^verbatim>\<open>utils/network\<close> is not among the
  sources. A composer for the examples: the base alone when there are no parameters,
  otherwise the base, a question mark and the parameters as \<^verbatim>\<open>key=value\<close> joined
  by \<^verbatim>\<open>&\<close>.
\<close>

fun example_value :: "jsval \<Rightarrow> string" where
  "example_value (JStr s) = s"
| "example_value (JNum n) =
     (if n < 0 then ''-'' @ string_of_nat (nat (- n)) else string_of_nat (nat n))"
| "example_value (JBool b) = (if b then ''true'' else ''false'')"
| "example_value v = []"

fun example_query :: "Params \<Rightarrow> string" where
  "example_query [] = []"
| "example_query [(k, v)] = k @ ''='' @ example_value v"
| "example_query ((k, v) # ps) = k @ ''='' @ example_value v @ ''&'' @ example_query ps"

definition example_appendParamsToURL :: "string \<Rightarrow> Params \<Rightarrow> string" where
  "example_appendParamsToURL base ps =
     (if ps = [] then base else base @ ''?'' @ example_query ps)"

text \<open>\<^verbatim>\<open>JSON.stringify\<close> on the one message the examples post, \<^verbatim>\<open>{cmd: "play"}\<close>.\<close>

definition example_stringify :: "jsval \<Rightarrow> jsval" where
  "example_stringify v =
     (if v = JObj [(''cmd'', JStr ''play'')] then JStr ''{\"cmd\":\"play\"}'' else JUndefined)"

text \<open>An environment in which every call of \<^verbatim>\<open>preconnect\<close> succeeds.\<close>

definition example_env :: env where
  "example_env =
     \<lparr> appendParamsToURL = example_appendParamsToURL,
       preconnect = (\<lambda>url. True),
       JSON_stringify = example_stringify \<rparr>"

text \<open>A decoder that recognises nothing: it returns undefined for every payload.\<close>

definition ignore_all :: "jsval \<Rightarrow> jsval" where
  "ignore_all raw = JUndefined"

text \<open>A decoder that answers every payload with the empty string.\<close>

definition blank_all :: "jsval \<Rightarrow> jsval" where
  "blank_all raw = JStr []"

text \<open>
  An instance whose iframe is rendered (content window 1) and which expects the origin
  of the player.
\<close>

definition example_embed :: embed where
  "example_embed =
     new_Embed \<lparr> iframe := Some \<lparr> contentWindow = HWindow 1 \<rparr>,
                 embedSrc := ''https://player.example/embed/abc'',
                 origin := Some ''https://player.example'' \<rparr>"

definition example_message :: MessageEvent where
  "example_message =
     \<lparr> ev_source = HWindow 1, ev_origin = ''https://player.example'', ev_data = JStr ''ready'' \<rparr>"

text \<open>The same instance, and the module variables, once it is attached to a fresh page.\<close>

definition example_connected :: embed where
  "example_connected = fst (connectedCallback example_env example_embed module_init)"

definition example_vars :: module_vars where
  "example_vars = fst (snd (connectedCallback example_env example_embed module_init))"

text \<open>The attached instance once its parameters are \<^verbatim>\<open>{autoplay: 1}\<close>.\<close>

definition example_playing :: embed where
  "example_playing =
     fst (step example_env (SetParams [(''autoplay'', JNum 1)]) example_connected example_vars)"

definition example_playing_vars :: module_vars where
  "example_playing_vars =
     fst (snd (step example_env (SetParams [(''autoplay'', JNum 1)])
                 example_connected example_vars))"

text \<open>A start of life with two reconfigurations, before the element is seen.\<close>

definition example_ops :: "op list" where
  "example_ops = [ConnectedCallback, ComponentWillLoad, IframeRef (Some \<lparr> contentWindow = HWindow 1 \<rparr>),
      SetParams [(''autoplay'', JNum 1)], SetPreconnections [''https://cdn.a'', ''https://cdn.b'']]"

section \<open>Auxiliary facts\<close>

lemma hints_append: "hints (xs @ ys) = hints xs @ hints ys"
  by (induction xs rule: hints.induct) simp_all

lemma srcWithParamsChange_inst: "fst (srcWithParamsChange env e m) = e"
  by (simp add: srcWithParamsChange_def call_preconnect_def split: prod.splits)

lemma assign_srcWithParams_inst:
  "fst (assign_srcWithParams env v e m) = e \<lparr> srcWithParams := v \<rparr>"
  by (simp add: assign_srcWithParams_def srcWithParamsChange_inst)

lemma live_srcWithParams [simp]: "live (e \<lparr> srcWithParams := v \<rparr>) = live e"
  by (simp add: live_def)

lemma srcChange_inst:
  "fst (srcChange env e m) = e \<lparr> srcWithParams := appendParamsToURL env (embedSrc e) (params e) \<rparr>"
  by (simp add: srcChange_def assign_srcWithParams_inst)

lemma connectedCallback_inst:
  "fst (connectedCallback env e m) =
     e \<lparr> intersectionObserverCleanup := True,
         srcWithParams := appendParamsToURL env (embedSrc e) (params e) \<rparr>"
proof -
  have "fst (connectedCallback env e m) =
          fst (srcChange env (e \<lparr> intersectionObserverCleanup := True \<rparr>) m)"
    by (simp add: connectedCallback_def split: prod.splits)
  then show ?thesis by (simp add: srcChange_inst)
qed

lemma preconnectionsChange_inst: "fst (preconnectionsChange env e m) = e"
  by (simp add: preconnectionsChange_def split: prod.splits)

lemma set_embedSrc_inst:
  "fst (set_embedSrc env v e m) =
     e \<lparr> embedSrc := v,
         srcWithParams := (if v = embedSrc e \<or> \<not> live e then srcWithParams e
                           else appendParamsToURL env v (params e)) \<rparr>"
  by (simp add: set_embedSrc_def srcChange_inst)

lemma set_params_inst:
  "fst (set_params env v e m) =
     e \<lparr> params := v,
         srcWithParams := (if live e then appendParamsToURL env (embedSrc e) v
                           else srcWithParams e) \<rparr>"
  by (simp add: set_params_def srcChange_inst)

lemma set_preconnections_inst:
  "fst (set_preconnections env v e m) = e \<lparr> preconnections := v \<rparr>"
  by (simp add: set_preconnections_def preconnectionsChange_inst)

lemma step_inst:
  "fst (step env x e m) =
     (case x of
        SetEmbedSrc v \<Rightarrow>
          e \<lparr> embedSrc := v,
              srcWithParams := (if v = embedSrc e \<or> \<not> live e then srcWithParams e
                                else appendParamsToURL env v (params e)) \<rparr>
      | SetMediaTitle v \<Rightarrow> e \<lparr> mediaTitle := v \<rparr>
      | SetLazy v \<Rightarrow> e \<lparr> lazy := v \<rparr>
      | SetParams v \<Rightarrow>
          e \<lparr> params := v,
              srcWithParams := (if live e then appendParamsToURL env (embedSrc e) v
                                else srcWithParams e) \<rparr>
      | SetOrigin v \<Rightarrow> e \<lparr> origin := v \<rparr>
      | SetPreconnections v \<Rightarrow> e \<lparr> preconnections := v \<rparr>
      | SetDecoder v \<Rightarrow> e \<lparr> decoder := v \<rparr>
      | ConnectedCallback \<Rightarrow> e \<lparr> intersectionObserverCleanup := True,
                                   srcWithParams := appendParamsToURL env (embedSrc e) (params e) \<rparr>
      | ComponentWillLoad \<Rightarrow> e \<lparr> iframe_id := Some (''vime-iframe-'' @ string_of_nat (idCount m + 1)) \<rparr>
      | ViewportEntered \<Rightarrow> e \<lparr> hasEnteredViewport := True \<rparr>
      | IframeRef el \<Rightarrow> e \<lparr> iframe := el \<rparr>
      | _ \<Rightarrow> e)"
  by (cases x)
     (simp_all add: set_embedSrc_inst set_params_inst set_preconnections_inst
        connectedCallback_inst componentWillLoad_def genIframeId_def enterViewport_def
        set_iframe_def)

lemma step_live: "live e \<Longrightarrow> live (fst (step env x e m))"
  by (simp add: step_inst live_def split: op.splits)

lemma step_flag:
  "hasEnteredViewport (fst (step env x e m)) = (hasEnteredViewport e \<or> x = ViewportEntered)"
  by (simp add: step_inst split: op.splits)

lemma step_lazy:
  "lazy (fst (step env x e m)) = (case x of SetLazy v \<Rightarrow> v | _ \<Rightarrow> lazy e)"
  by (simp add: step_inst split: op.splits)

lemma call_preconnect_out: "snd (call_preconnect env url key m) = [Preconnect url]"
  by (simp add: call_preconnect_def)

lemma srcWithParamsChange_entered:
  "hasEnteredViewport e \<Longrightarrow> srcWithParamsChange env e m = (e, m, [EmbedSrcChange (srcWithParams e)])"
  by (simp add: srcWithParamsChange_def)

lemma assign_srcWithParams_entered:
  "hasEnteredViewport e \<Longrightarrow>
   assign_srcWithParams env v e m =
     (e \<lparr> srcWithParams := v \<rparr>, m,
      if v = srcWithParams e \<or> \<not> live e then [] else [EmbedSrcChange v])"
  by (simp add: assign_srcWithParams_def srcWithParamsChange_entered)

lemma step_entered:
  "hasEnteredViewport e \<Longrightarrow>
   fst (snd (step env x e m)) = (case x of ComponentWillLoad \<Rightarrow> m \<lparr> idCount := idCount m + 1 \<rparr> | _ \<Rightarrow> m)
   \<and> hints (snd (snd (step env x e m))) = []"
  by (cases x)
     (simp_all add: set_embedSrc_def set_params_def set_preconnections_def srcChange_def
        assign_srcWithParams_entered preconnectionsChange_def connectedCallback_def
        componentWillLoad_def genIframeId_def disconnectedCallback_def onWindowMessage_def
        postMessage_def onLoad_def split: handle.splits)

lemma run_Cons_inst:
  "fst (run env (x # xs) e m) = fst (run env xs (fst (step env x e m)) (fst (snd (step env x e m))))"
  by (simp split: prod.splits)

lemma run_Cons_vars:
  "fst (snd (run env (x # xs) e m)) =
     fst (snd (run env xs (fst (step env x e m)) (fst (snd (step env x e m)))))"
  by (simp split: prod.splits)

lemma run_Cons_out:
  "snd (snd (run env (x # xs) e m)) =
     snd (snd (step env x e m))
       @ snd (snd (run env xs (fst (step env x e m)) (fst (snd (step env x e m)))))"
  by (simp split: prod.splits)

lemma run_flag:
  "hasEnteredViewport e \<Longrightarrow> hasEnteredViewport (fst (run env ops e m))"
proof (induction ops arbitrary: e m)
  case Nil
  then show ?case by simp
next
  case (Cons x xs)
  have "hasEnteredViewport (fst (step env x e m))"
    using Cons.prems by (simp add: step_flag)
  then show ?case
    unfolding run_Cons_inst by (rule Cons.IH)
qed

lemma run_entered_hints:
  "hasEnteredViewport e \<Longrightarrow> hints (snd (snd (run env ops e m))) = []"
proof (induction ops arbitrary: e m)
  case Nil
  then show ?case by simp
next
  case (Cons x xs)
  have e1: "hasEnteredViewport (fst (step env x e m))"
    using Cons.prems by (simp add: step_flag)
  have o1: "hints (snd (snd (step env x e m))) = []"
    using Cons.prems step_entered by blast
  show ?case
    unfolding run_Cons_out hints_append using o1 Cons.IH [OF e1] by simp
qed

lemma run_entered_connected:
  "hasEnteredViewport e \<Longrightarrow> connected (fst (snd (run env ops e m))) = connected m"
proof (induction ops arbitrary: e m)
  case Nil
  then show ?case by simp
next
  case (Cons x xs)
  have e1: "hasEnteredViewport (fst (step env x e m))"
    using Cons.prems by (simp add: step_flag)
  have c1: "connected (fst (snd (step env x e m))) = connected m"
    using step_entered [OF Cons.prems, of env x m] by (simp split: op.splits)
  show ?case
    unfolding run_Cons_vars using c1 Cons.IH [OF e1] by simp
qed

lemma flags_entered:
  "hasEnteredViewport e \<Longrightarrow> flags env ops e m = replicate (Suc (length ops)) True"
proof (induction ops arbitrary: e m)
  case Nil
  then show ?case by simp
next
  case (Cons x xs)
  have e1: "hasEnteredViewport (fst (step env x e m))"
    using Cons.prems by (simp add: step_flag)
  obtain e1 m1 o1 where s: "step env x e m = (e1, m1, o1)"
    by (cases "step env x e m") auto
  with e1 have "hasEnteredViewport e1" by simp
  from Cons.IH [OF this, of m1] s Cons.prems show ?case by simp
qed

lemma rises_all_True: "rises (True # replicate n True) = 0"
  by (induction n) simp_all

lemma flags_hd: "\<exists>bs. flags env ops e m = hasEnteredViewport e # bs"
  by (cases ops) simp_all

lemma rises_flags: "rises (flags env ops e m) \<le> 1"
proof (induction ops arbitrary: e m)
  case Nil
  show ?case by simp
next
  case (Cons x xs)
  obtain e1 m1 o1 where s: "step env x e m = (e1, m1, o1)"
    by (cases "step env x e m") auto
  obtain bs where bs: "flags env xs e1 m1 = hasEnteredViewport e1 # bs"
    using flags_hd by blast
  show ?case
  proof (cases "hasEnteredViewport e1")
    case True
    then have "flags env xs e1 m1 = replicate (Suc (length xs)) True"
      by (rule flags_entered)
    then have "rises (flags env xs e1 m1) = 0"
      using rises_all_True [of "length xs"] by simp
    with s bs show ?thesis by simp
  next
    case False
    with s bs Cons.IH [of e1 m1] show ?thesis by simp
  qed
qed

lemma falls_flags: "falls (flags env ops e m) = 0"
proof (induction ops arbitrary: e m)
  case Nil
  show ?case by simp
next
  case (Cons x xs)
  obtain e1 m1 o1 where s: "step env x e m = (e1, m1, o1)"
    by (cases "step env x e m") auto
  obtain bs where bs: "flags env xs e1 m1 = hasEnteredViewport e1 # bs"
    using flags_hd by blast
  have "hasEnteredViewport e \<Longrightarrow> hasEnteredViewport e1"
    using step_flag [of env x e m] s by simp
  with s bs Cons.IH [of e1 m1] show ?case by auto
qed

lemma string_of_nat_1: "string_of_nat 1 = ''1''"
  by code_simp

lemma string_of_nat_Suc_0: "string_of_nat (Suc 0) = ''1''"
  using string_of_nat_1 by simp

lemma example_connected_eq:
  "example_connected =
     example_embed \<lparr> intersectionObserverCleanup := True,
                     srcWithParams := ''https://player.example/embed/abc'' \<rparr>"
  by (simp add: example_connected_def connectedCallback_inst example_env_def
      example_appendParamsToURL_def example_embed_def new_Embed_def)

lemma example_vars_eq:
  "example_vars = \<lparr> idCount = 0, connected = {''https://player.example/embed/abc''} \<rparr>"
  by (simp add: example_vars_def connectedCallback_def srcChange_def assign_srcWithParams_def
      srcWithParamsChange_def call_preconnect_def example_env_def live_def
      example_appendParamsToURL_def example_embed_def new_Embed_def module_init_def)

lemma example_playing_eq:
  "example_playing =
     example_embed \<lparr> intersectionObserverCleanup := True,
                     srcWithParams := ''https://player.example/embed/abc?autoplay=1'',
                     params := [(''autoplay'', JNum 1)] \<rparr>
   \<and> example_playing_vars = example_vars"
  by (simp add: example_playing_def example_playing_vars_def example_connected_eq
      example_vars_eq example_embed_def new_Embed_def set_params_def srcChange_def
      assign_srcWithParams_def srcWithParamsChange_def live_def example_env_def
      example_appendParamsToURL_def string_of_nat_Suc_0)

lemma run_waiting:
  "lazy e \<Longrightarrow> \<not> hasEnteredViewport e \<Longrightarrow> ViewportEntered \<notin> set ops \<Longrightarrow>
   SetLazy False \<notin> set ops \<Longrightarrow>
   lazy (fst (run env ops e m)) \<and> \<not> hasEnteredViewport (fst (run env ops e m))"
proof (induction ops arbitrary: e m)
  case Nil
  then show ?case by simp
next
  case (Cons x xs)
  have l: "lazy (fst (step env x e m))"
    using Cons.prems by (auto simp add: step_lazy split: op.splits)
  have f: "\<not> hasEnteredViewport (fst (step env x e m))"
    using Cons.prems by (auto simp add: step_flag)
  have "ViewportEntered \<notin> set xs" and "SetLazy False \<notin> set xs"
    using Cons.prems by simp_all
  with l f show ?case
    unfolding run_Cons_inst by (rule Cons.IH)
qed

lemma step_in_sync:
  "live e \<Longrightarrow> srcWithParams e = appendParamsToURL env (embedSrc e) (params e) \<Longrightarrow>
   srcWithParams (fst (step env x e m)) =
     appendParamsToURL env (embedSrc (fst (step env x e m))) (params (fst (step env x e m)))"
  by (simp add: step_inst split: op.splits)

lemma run_in_sync:
  "live e \<Longrightarrow> srcWithParams e = appendParamsToURL env (embedSrc e) (params e) \<Longrightarrow>
   srcWithParams (fst (run env ops e m)) =
     appendParamsToURL env (embedSrc (fst (run env ops e m))) (params (fst (run env ops e m)))"
proof (induction ops arbitrary: e m)
  case Nil
  then show ?case by simp
next
  case (Cons x xs)
  from Cons.prems
  have l: "live (fst (step env x e m))"
    by (simp add: step_live)
  from Cons.prems
  have "srcWithParams (fst (step env x e m)) =
     appendParamsToURL env (embedSrc (fst (step env x e m))) (params (fst (step env x e m)))"
    by (rule step_in_sync)
  with l show ?case
    unfolding run_Cons_inst by (rule Cons.IH)
qed

lemma run_connected_in_sync:
  "srcWithParams (fst (run env (ConnectedCallback # ops) e m)) =
     appendParamsToURL env (embedSrc (fst (run env (ConnectedCallback # ops) e m)))
       (params (fst (run env (ConnectedCallback # ops) e m)))"
  unfolding run_Cons_inst
  by (rule run_in_sync) (simp_all add: connectedCallback_inst live_def)

section \<open>Properties\<close>

subsection \<open>Inbound messages\<close>

text \<open>
  C1, as the code has it. For a message that passes the checks of source and origin,
  with a decoder configured: when the decoder returns null or undefined, the raw
  payload takes the place of its result, and the notification is suppressed only if the
  raw payload is itself empty (falsy); when the decoder returns a result that is falsy
  without being null or undefined (the empty string, 0, false), the notification is
  suppressed; any other result is the payload of the notification.
\<close>

theorem decoder_result_decides_notification:
  assumes "originMatches e ev" and "decoder e = Some d"
  shows "onWindowMessage e ev =
           (if nullish (d (ev_data ev))
            then (if truthy (ev_data ev) then [EmbedMessage (ev_data ev)] else [])
            else (if truthy (d (ev_data ev)) then [EmbedMessage (d (ev_data ev))] else []))"
  using assms by (simp add: onWindowMessage_def decoded_def coalesce_def)

theorem decoder_result_decides_notification_witness:
  "originMatches (example_embed \<lparr> decoder := Some blank_all \<rparr>) example_message
   \<and> decoder (example_embed \<lparr> decoder := Some blank_all \<rparr>) = Some blank_all
   \<and> onWindowMessage (example_embed \<lparr> decoder := Some blank_all \<rparr>) example_message = []"
proof -
  have h1: "originMatches (example_embed \<lparr> decoder := Some blank_all \<rparr>) example_message"
    by (simp add: originMatches_def isString_def iframe_contentWindow_def example_embed_def
        example_message_def new_Embed_def)
  have h2: "decoder (example_embed \<lparr> decoder := Some blank_all \<rparr>) = Some blank_all"
    by simp
  from decoder_result_decides_notification [OF h1 h2]
  have "onWindowMessage (example_embed \<lparr> decoder := Some blank_all \<rparr>) example_message = []"
    by (simp add: blank_all_def)
  with h1 h2 show ?thesis by simp
qed

text \<open>
  The claim C1 as it was stated (a decoder returning an absent result suppresses the
  notification) fails: with a decoder that returns undefined, the payload
  \<^verbatim>\<open>"ready"\<close> of an accepted message is forwarded undecoded.
\<close>

theorem decoder_absent_result_counterexample:
  "originMatches (example_embed \<lparr> decoder := Some ignore_all \<rparr>) example_message
   \<and> decoder (example_embed \<lparr> decoder := Some ignore_all \<rparr>) = Some ignore_all
   \<and> ignore_all (ev_data example_message) = JUndefined
   \<and> onWindowMessage (example_embed \<lparr> decoder := Some ignore_all \<rparr>) example_message
       = [EmbedMessage (JStr ''ready'')]"
  by (simp add: onWindowMessage_def originMatches_def decoded_def coalesce_def isString_def
      iframe_contentWindow_def example_embed_def example_message_def new_Embed_def
      ignore_all_def)

text \<open>
  C2. A message whose source is not the content window of this instance's iframe is
  never forwarded: the handler emits nothing, whatever the origin of the message and
  whether or not an expected origin is configured.
\<close>

theorem foreign_source_never_forwarded:
  assumes "ev_source ev \<noteq> iframe_contentWindow e"
  shows "onWindowMessage e ev = []"
  using assms by (simp add: onWindowMessage_def originMatches_def)

theorem foreign_source_never_forwarded_witness:
  "ev_source \<lparr> ev_source = HWindow 2, ev_origin = ''https://player.example'', ev_data = JStr ''ready'' \<rparr>
     \<noteq> iframe_contentWindow (new_Embed \<lparr> iframe := Some \<lparr> contentWindow = HWindow 1 \<rparr> \<rparr>)
   \<and> onWindowMessage (new_Embed \<lparr> iframe := Some \<lparr> contentWindow = HWindow 1 \<rparr> \<rparr>)
        \<lparr> ev_source = HWindow 2, ev_origin = ''https://player.example'', ev_data = JStr ''ready'' \<rparr> = []"
proof -
  have h: "ev_source \<lparr> ev_source = HWindow 2, ev_origin = ''https://player.example'', ev_data = JStr ''ready'' \<rparr>
     \<noteq> iframe_contentWindow (new_Embed \<lparr> iframe := Some \<lparr> contentWindow = HWindow 1 \<rparr> \<rparr>)"
    by (simp add: iframe_contentWindow_def new_Embed_def)
  from h foreign_source_never_forwarded [OF h] show ?thesis by simp
qed

text \<open>
  C3. When the expected origin is set to a string, a message whose origin differs from
  it is never forwarded, also when its source is the content window of the instance.
\<close>

theorem differing_origin_never_forwarded:
  assumes "origin e = Some expected" and "ev_origin ev \<noteq> expected"
  shows "onWindowMessage e ev = []"
  using assms by (auto simp add: onWindowMessage_def originMatches_def isString_def)

theorem differing_origin_never_forwarded_witness:
  "origin example_embed = Some ''https://player.example''
   \<and> ev_source (example_message \<lparr> ev_origin := ''https://evil.example'' \<rparr>)
       = iframe_contentWindow example_embed
   \<and> ev_origin (example_message \<lparr> ev_origin := ''https://evil.example'' \<rparr>)
       \<noteq> ''https://player.example''
   \<and> onWindowMessage example_embed (example_message \<lparr> ev_origin := ''https://evil.example'' \<rparr>) = []"
proof -
  have h1: "origin example_embed = Some ''https://player.example''"
    by (simp add: example_embed_def)
  have h2: "ev_origin (example_message \<lparr> ev_origin := ''https://evil.example'' \<rparr>)
              \<noteq> ''https://player.example''"
    by simp
  have h3: "ev_source (example_message \<lparr> ev_origin := ''https://evil.example'' \<rparr>)
              = iframe_contentWindow example_embed"
    by (simp add: example_message_def example_embed_def iframe_contentWindow_def)
  from h1 h2 h3 differing_origin_never_forwarded [OF h1 h2] show ?thesis by simp
qed

subsection \<open>Connection hints\<close>

text \<open>
  C4 at a list that names one host twice, assigned to an instance attached to a fresh
  page: \<^verbatim>\<open>filter\<close> keeps both entries, since neither is in the registry yet, and
  \<^verbatim>\<open>forEach\<close> calls \<^verbatim>\<open>preconnect\<close> for each of them. Two hints are issued for the
  one key.
\<close>

theorem duplicate_preconnection_hinted_twice:
  "hints (snd (snd (run example_env
        [ConnectedCallback, ComponentWillLoad,
         SetPreconnections [''https://cdn.a'', ''https://cdn.a'']]
        new_Embed module_init)))
     = [''https://cdn.a'', ''https://cdn.a'']"
  by (simp add: connectedCallback_def srcChange_def assign_srcWithParams_def
      componentWillLoad_def genIframeId_def set_preconnections_def preconnectionsChange_def
      call_preconnect_def live_def new_Embed_def module_init_def example_env_def
      example_appendParamsToURL_def)

subsection \<open>Outbound messages\<close>

text \<open>
  C8. While there is no iframe, or the iframe has no content window, \<^verbatim>\<open>postMessage\<close>
  does nothing: no call is made, nothing is raised (the method has no other outcome
  than its list of calls), and the instance and the module variables are as before.
  When the content window exists, the one call made passes it the serialised message,
  targeted at \<^verbatim>\<open>target\<close> when one is given and at \<^verbatim>\<open>*\<close> otherwise.
\<close>

theorem postMessage_needs_content_window:
  "(iframe e = None \<longrightarrow> postMessage env e message target = [])
   \<and> (iframe e = Some el \<and> contentWindow el = HNull \<longrightarrow> postMessage env e message target = [])
   \<and> (iframe e = Some el \<and> contentWindow el = HUndefined \<longrightarrow> postMessage env e message target = [])
   \<and> (iframe e = Some el \<and> contentWindow el = HWindow w \<longrightarrow>
        postMessage env e message (Some t) = [ContentWindowPostMessage w (JSON_stringify env message) t]
        \<and> postMessage env e message None = [ContentWindowPostMessage w (JSON_stringify env message) ''*''])
   \<and> fst (step env (PostMessage message target) e m) = e
   \<and> fst (snd (step env (PostMessage message target) e m)) = m"
  by (simp add: postMessage_def iframe_contentWindow_def)

theorem postMessage_needs_content_window_witness:
  "iframe new_Embed = None
   \<and> postMessage example_env new_Embed (JObj [(''cmd'', JStr ''play'')]) None = []
   \<and> iframe (new_Embed \<lparr> iframe := Some \<lparr> contentWindow = HNull \<rparr> \<rparr>) = Some \<lparr> contentWindow = HNull \<rparr>
   \<and> contentWindow \<lparr> contentWindow = HNull \<rparr> = HNull
   \<and> postMessage example_env (new_Embed \<lparr> iframe := Some \<lparr> contentWindow = HNull \<rparr> \<rparr>)
        (JObj [(''cmd'', JStr ''play'')]) None = []
   \<and> iframe (new_Embed \<lparr> iframe := Some \<lparr> contentWindow = HUndefined \<rparr> \<rparr>) = Some \<lparr> contentWindow = HUndefined \<rparr>
   \<and> contentWindow \<lparr> contentWindow = HUndefined \<rparr> = HUndefined
   \<and> postMessage example_env (new_Embed \<lparr> iframe := Some \<lparr> contentWindow = HUndefined \<rparr> \<rparr>)
        (JObj [(''cmd'', JStr ''play'')]) None = []
   \<and> iframe example_embed = Some \<lparr> contentWindow = HWindow 1 \<rparr>
   \<and> contentWindow \<lparr> contentWindow = HWindow 1 \<rparr> = HWindow 1
   \<and> postMessage example_env example_embed (JObj [(''cmd'', JStr ''play'')])
        (Some ''https://player.example'')
       = [ContentWindowPostMessage 1 (JStr ''{\"cmd\":\"play\"}'') ''https://player.example'']
   \<and> postMessage example_env example_embed (JObj [(''cmd'', JStr ''play'')]) None
       = [ContentWindowPostMessage 1 (JStr ''{\"cmd\":\"play\"}'') ''*'']"
proof -
  have a: "iframe new_Embed = None"
    by (simp add: new_Embed_def)
  have b: "iframe (new_Embed \<lparr> iframe := Some \<lparr> contentWindow = HNull \<rparr> \<rparr>) = Some \<lparr> contentWindow = HNull \<rparr>
           \<and> contentWindow \<lparr> contentWindow = HNull \<rparr> = HNull"
    by simp
  have c: "iframe (new_Embed \<lparr> iframe := Some \<lparr> contentWindow = HUndefined \<rparr> \<rparr>) = Some \<lparr> contentWindow = HUndefined \<rparr>
           \<and> contentWindow \<lparr> contentWindow = HUndefined \<rparr> = HUndefined"
    by simp
  have d: "iframe example_embed = Some \<lparr> contentWindow = HWindow 1 \<rparr>
           \<and> contentWindow \<lparr> contentWindow = HWindow 1 \<rparr> = HWindow 1"
    by (simp add: example_embed_def)
  have s: "JSON_stringify example_env (JObj [(''cmd'', JStr ''play'')]) = JStr ''{\"cmd\":\"play\"}''"
    by (simp add: example_env_def example_stringify_def)
  note t = postMessage_needs_content_window [where env = example_env
      and message = "JObj [(''cmd'', JStr ''play'')]" and target = None]
  from a t [of new_Embed]
  have 1: "postMessage example_env new_Embed (JObj [(''cmd'', JStr ''play'')]) None = []"
    by blast
  from b t [of "new_Embed \<lparr> iframe := Some \<lparr> contentWindow = HNull \<rparr> \<rparr>" "\<lparr> contentWindow = HNull \<rparr>"]
  have 2: "postMessage example_env (new_Embed \<lparr> iframe := Some \<lparr> contentWindow = HNull \<rparr> \<rparr>)
        (JObj [(''cmd'', JStr ''play'')]) None = []"
    by blast
  from c t [of "new_Embed \<lparr> iframe := Some \<lparr> contentWindow = HUndefined \<rparr> \<rparr>" "\<lparr> contentWindow = HUndefined \<rparr>"]
  have 3: "postMessage example_env (new_Embed \<lparr> iframe := Some \<lparr> contentWindow = HUndefined \<rparr> \<rparr>)
        (JObj [(''cmd'', JStr ''play'')]) None = []"
    by blast
  from d t [of example_embed "\<lparr> contentWindow = HWindow 1 \<rparr>" 1 "''https://player.example''"]
  have 4: "postMessage example_env example_embed (JObj [(''cmd'', JStr ''play'')])
        (Some ''https://player.example'')
       = [ContentWindowPostMessage 1 (JSON_stringify example_env (JObj [(''cmd'', JStr ''play'')])) ''https://player.example'']
   \<and> postMessage example_env example_embed (JObj [(''cmd'', JStr ''play'')]) None
       = [ContentWindowPostMessage 1 (JSON_stringify example_env (JObj [(''cmd'', JStr ''play'')])) ''*'']"
    by blast
  from a b c d 1 2 3 4 s show ?thesis by simp
qed

subsection \<open>The composed URL\<close>

text \<open>
  C6 at a change of \<^verbatim>\<open>params\<close> that leaves the composed URL as it is. The attached
  instance, not yet in the viewport, is first given \<^verbatim>\<open>{autoplay: 1}\<close>: the composed
  URL changes and \<^verbatim>\<open>embedSrcChange\<close> carries it. It is then given
  \<^verbatim>\<open>{autoplay: '1'}\<close>: the parameters have changed, \<^verbatim>\<open>srcChange\<close> recomputes the
  composed URL, the result is the string already held, the watcher of
  \<^verbatim>\<open>srcWithParams\<close> does not run, and no notification is emitted.
\<close>

theorem params_change_without_notification:
  "live example_playing
   \<and> \<not> hasEnteredViewport example_playing
   \<and> params example_playing = [(''autoplay'', JNum 1)]
   \<and> snd (snd (step example_env (SetParams [(''autoplay'', JNum 1)])
                   example_connected example_vars))
       = [EmbedSrcChange ''https://player.example/embed/abc?autoplay=1'']
   \<and> params (fst (step example_env (SetParams [(''autoplay'', JStr ''1'')])
                      example_playing example_playing_vars))
       = [(''autoplay'', JStr ''1'')]
   \<and> srcWithParams (fst (step example_env (SetParams [(''autoplay'', JStr ''1'')])
                             example_playing example_playing_vars))
       = ''https://player.example/embed/abc?autoplay=1''
   \<and> snd (snd (step example_env (SetParams [(''autoplay'', JStr ''1'')])
                   example_playing example_playing_vars)) = []"
  by (simp add: example_playing_eq example_connected_eq example_vars_eq example_embed_def
      new_Embed_def set_params_def srcChange_def assign_srcWithParams_def
      srcWithParamsChange_def live_def example_env_def example_appendParamsToURL_def
      string_of_nat_Suc_0)

subsection \<open>The viewport gate\<close>

text \<open>
  C7. Once the viewport-entered flag of an instance is true, nothing that happens to the
  instance issues a hint: no run of operations calls \<^verbatim>\<open>preconnect\<close> or adds to the
  registry, and in particular neither the watcher of the composed URL nor the watcher of
  the preconnections list does.
\<close>

theorem no_hints_after_viewport_entry:
  assumes "hasEnteredViewport e"
  shows "hints (snd (snd (run env ops e m))) = []
         \<and> connected (fst (snd (run env ops e m))) = connected m
         \<and> hints (snd (snd (srcWithParamsChange env e m))) = []
         \<and> hints (snd (snd (preconnectionsChange env e m))) = []"
  using assms
  by (simp add: run_entered_hints run_entered_connected srcWithParamsChange_entered
      preconnectionsChange_def)

theorem no_hints_after_viewport_entry_witness:
  "hasEnteredViewport (enterViewport example_connected)
   \<and> hints (snd (snd (run example_env
        [SetParams [(''autoplay'', JNum 1)],
         SetPreconnections [''https://cdn.a'', ''https://cdn.b''],
         SetEmbedSrc ''https://player.example/embed/xyz'']
        (enterViewport example_connected) example_vars))) = []
   \<and> hints (snd (snd (run example_env
        [SetParams [(''autoplay'', JNum 1)],
         SetPreconnections [''https://cdn.a'', ''https://cdn.b''],
         SetEmbedSrc ''https://player.example/embed/xyz'']
        example_connected example_vars)))
       = [''https://cdn.a'', ''https://cdn.b'', ''https://player.example/embed/xyz?autoplay=1'']"
proof -
  have h: "hasEnteredViewport (enterViewport example_connected)"
    by (simp add: enterViewport_def)
  have before: "hints (snd (snd (run example_env
        [SetParams [(''autoplay'', JNum 1)],
         SetPreconnections [''https://cdn.a'', ''https://cdn.b''],
         SetEmbedSrc ''https://player.example/embed/xyz'']
        example_connected example_vars)))
       = [''https://cdn.a'', ''https://cdn.b'', ''https://player.example/embed/xyz?autoplay=1'']"
    by (simp add: example_connected_eq example_vars_eq example_embed_def new_Embed_def
        set_params_def set_embedSrc_def set_preconnections_def srcChange_def
        assign_srcWithParams_def srcWithParamsChange_def preconnectionsChange_def
        call_preconnect_def live_def example_env_def example_appendParamsToURL_def
        string_of_nat_Suc_0)
  have after: "hints (snd (snd (run example_env
        [SetParams [(''autoplay'', JNum 1)],
         SetPreconnections [''https://cdn.a'', ''https://cdn.b''],
         SetEmbedSrc ''https://player.example/embed/xyz'']
        (enterViewport example_connected) example_vars))) = []"
    using no_hints_after_viewport_entry [OF h] by (rule conjunct1)
  from h after before show ?thesis by (intro conjI)
qed

text \<open>
  C9. The viewport-entered flag of a new instance is false; along any run of operations
  it stays true once it is true, so it goes from false to true at most once and never
  from true to false.
\<close>

theorem viewport_flag_never_reverts:
  "\<not> hasEnteredViewport new_Embed
   \<and> (hasEnteredViewport e \<longrightarrow> hasEnteredViewport (fst (run env ops e m)))
   \<and> rises (flags env ops e m) \<le> 1
   \<and> falls (flags env ops e m) = 0"
  using rises_flags [of env ops e m] by (simp add: new_Embed_def run_flag falls_flags)

theorem viewport_flag_never_reverts_witness:
  "hasEnteredViewport (enterViewport new_Embed)
   \<and> hasEnteredViewport (fst (run example_env
        [DisconnectedCallback, ConnectedCallback, SetLazy True, ViewportEntered, IframeLoad]
        (enterViewport new_Embed) module_init))
   \<and> flags example_env [ConnectedCallback, ViewportEntered, DisconnectedCallback,
        ConnectedCallback, ViewportEntered, SetLazy True] new_Embed module_init
      = [False, False, True, True, True, True, True]"
proof -
  have h: "hasEnteredViewport (enterViewport new_Embed)"
    by (simp add: enterViewport_def)
  have f: "flags example_env [ConnectedCallback, ViewportEntered, DisconnectedCallback,
        ConnectedCallback, ViewportEntered, SetLazy True] new_Embed module_init
      = [False, False, True, True, True, True, True]"
    by (simp add: new_Embed_def module_init_def connectedCallback_def srcChange_def
        assign_srcWithParams_def live_def example_env_def example_appendParamsToURL_def
        enterViewport_def disconnectedCallback_def)
  from viewport_flag_never_reverts [of "enterViewport new_Embed" example_env
      "[DisconnectedCallback, ConnectedCallback, SetLazy True, ViewportEntered, IframeLoad]"
      module_init] h
  have r: "hasEnteredViewport (fst (run example_env
        [DisconnectedCallback, ConnectedCallback, SetLazy True, ViewportEntered, IframeLoad]
        (enterViewport new_Embed) module_init))"
    by blast
  from h r f show ?thesis by (intro conjI)
qed

text \<open>
  C5. A lazy instance that has not entered the viewport renders an iframe without
  \<^verbatim>\<open>src\<close>, and keeps doing so along any run in which the viewport callback does not
  fire and \<^verbatim>\<open>lazy\<close> is not switched off. An instance that is not lazy renders its
  composed URL as \<^verbatim>\<open>src\<close>, from the attachment on.
\<close>

theorem lazy_defers_iframe_src:
  "(lazy e \<and> \<not> hasEnteredViewport e \<longrightarrow> vn_src (render e) = None)
   \<and> (lazy e \<and> \<not> hasEnteredViewport e \<and> ViewportEntered \<notin> set ops \<and> SetLazy False \<notin> set ops
        \<longrightarrow> vn_src (render (fst (run env ops e m))) = None)
   \<and> (\<not> lazy e \<longrightarrow> vn_src (render e) = Some (srcWithParams e))
   \<and> (\<not> lazy e \<longrightarrow>
        vn_src (render (fst (connectedCallback env e m)))
          = Some (appendParamsToURL env (embedSrc e) (params e)))"
proof (intro conjI impI)
  assume "lazy e \<and> \<not> hasEnteredViewport e"
  then show "vn_src (render e) = None" by (simp add: render_def)
next
  assume a: "lazy e \<and> \<not> hasEnteredViewport e \<and> ViewportEntered \<notin> set ops \<and> SetLazy False \<notin> set ops"
  then have "lazy (fst (run env ops e m)) \<and> \<not> hasEnteredViewport (fst (run env ops e m))"
    using run_waiting [of e ops env m] by blast
  then show "vn_src (render (fst (run env ops e m))) = None" by (simp add: render_def)
next
  assume "\<not> lazy e"
  then show "vn_src (render e) = Some (srcWithParams e)" by (simp add: render_def)
next
  assume "\<not> lazy e"
  then show "vn_src (render (fst (connectedCallback env e m)))
          = Some (appendParamsToURL env (embedSrc e) (params e))"
    by (simp add: render_def connectedCallback_inst)
qed

theorem lazy_defers_iframe_src_witness:
  "lazy example_embed \<and> \<not> hasEnteredViewport example_embed
   \<and> ViewportEntered \<notin> set example_ops \<and> SetLazy False \<notin> set example_ops
   \<and> vn_src (render example_embed) = None
   \<and> vn_src (render (fst (run example_env example_ops example_embed module_init))) = None
   \<and> \<not> lazy (example_embed \<lparr> lazy := False \<rparr>)
   \<and> vn_src (render (example_embed \<lparr> lazy := False \<rparr>)) = Some []
   \<and> vn_src (render (fst (connectedCallback example_env (example_embed \<lparr> lazy := False \<rparr>) module_init)))
       = Some ''https://player.example/embed/abc''"
proof -
  have h1: "lazy example_embed \<and> \<not> hasEnteredViewport example_embed"
    by (simp add: example_embed_def new_Embed_def)
  have h2: "ViewportEntered \<notin> set example_ops \<and> SetLazy False \<notin> set example_ops"
    by (simp add: example_ops_def)
  have h3: "\<not> lazy (example_embed \<lparr> lazy := False \<rparr>)"
    by simp
  have u: "appendParamsToURL example_env (embedSrc (example_embed \<lparr> lazy := False \<rparr>))
             (params (example_embed \<lparr> lazy := False \<rparr>)) = ''https://player.example/embed/abc''"
    by (simp add: example_embed_def new_Embed_def example_env_def example_appendParamsToURL_def)
  have s: "srcWithParams (example_embed \<lparr> lazy := False \<rparr>) = []"
    by (simp add: example_embed_def new_Embed_def)
  note t1 = lazy_defers_iframe_src [of example_embed example_ops example_env module_init]
  note t2 = lazy_defers_iframe_src [of "example_embed \<lparr> lazy := False \<rparr>" "[]" example_env module_init]
  from t1 h1 h2 have a: "vn_src (render example_embed) = None
     \<and> vn_src (render (fst (run example_env example_ops example_embed module_init))) = None"
    by blast
  from t2 h3 have b: "vn_src (render (example_embed \<lparr> lazy := False \<rparr>))
        = Some (srcWithParams (example_embed \<lparr> lazy := False \<rparr>))
     \<and> vn_src (render (fst (connectedCallback example_env (example_embed \<lparr> lazy := False \<rparr>) module_init)))
        = Some (appendParamsToURL example_env (embedSrc (example_embed \<lparr> lazy := False \<rparr>))
             (params (example_embed \<lparr> lazy := False \<rparr>)))"
    by blast
  from b have b': "vn_src (render (example_embed \<lparr> lazy := False \<rparr>)) = Some []
     \<and> vn_src (render (fst (connectedCallback example_env (example_embed \<lparr> lazy := False \<rparr>) module_init)))
        = Some ''https://player.example/embed/abc''"
    unfolding u s .
  from h1 h2 h3 a b' show ?thesis by (intro conjI) blast+
qed

text \<open>
  C10. The \<^verbatim>\<open>src\<close> of the rendered iframe is the composed URL exactly when
  \<^verbatim>\<open>lazy\<close> is false or the viewport-entered flag is true, and is unset otherwise;
  after the attachment the composed URL rendered is the one of the current
  \<^verbatim>\<open>embedSrc\<close> and \<^verbatim>\<open>params\<close>. So switching \<^verbatim>\<open>lazy\<close> on before the
  viewport is entered takes the source away again, while the flag stays as it was.
\<close>

theorem render_src_follows_lazy_and_flag:
  "vn_src (render e) =
     (if \<not> lazy e \<or> hasEnteredViewport e then Some (srcWithParams e) else None)
   \<and> vn_src (render (fst (run env (ConnectedCallback # ops) e m))) =
       (if \<not> lazy (fst (run env (ConnectedCallback # ops) e m))
           \<or> hasEnteredViewport (fst (run env (ConnectedCallback # ops) e m))
        then Some (appendParamsToURL env
                     (embedSrc (fst (run env (ConnectedCallback # ops) e m)))
                     (params (fst (run env (ConnectedCallback # ops) e m))))
        else None)
   \<and> (\<not> lazy e \<and> \<not> hasEnteredViewport e \<longrightarrow>
        vn_src (render e) = Some (srcWithParams e)
        \<and> vn_src (render (fst (step env (SetLazy True) e m))) = None
        \<and> \<not> hasEnteredViewport (fst (step env (SetLazy True) e m)))"
proof (intro conjI impI)
  show "vn_src (render e) =
     (if \<not> lazy e \<or> hasEnteredViewport e then Some (srcWithParams e) else None)"
    by (simp add: render_def)
next
  have "vn_src (render (fst (run env (ConnectedCallback # ops) e m))) =
       (if \<not> lazy (fst (run env (ConnectedCallback # ops) e m))
           \<or> hasEnteredViewport (fst (run env (ConnectedCallback # ops) e m))
        then Some (srcWithParams (fst (run env (ConnectedCallback # ops) e m)))
        else None)"
    by (simp add: render_def)
  then show "vn_src (render (fst (run env (ConnectedCallback # ops) e m))) =
       (if \<not> lazy (fst (run env (ConnectedCallback # ops) e m))
           \<or> hasEnteredViewport (fst (run env (ConnectedCallback # ops) e m))
        then Some (appendParamsToURL env
                     (embedSrc (fst (run env (ConnectedCallback # ops) e m)))
                     (params (fst (run env (ConnectedCallback # ops) e m))))
        else None)"
    using run_connected_in_sync [of env ops e m] by simp
next
  assume "\<not> lazy e \<and> \<not> hasEnteredViewport e"
  then show "vn_src (render e) = Some (srcWithParams e)"
    by (simp add: render_def)
next
  assume "\<not> lazy e \<and> \<not> hasEnteredViewport e"
  then show "vn_src (render (fst (step env (SetLazy True) e m))) = None"
    by (simp add: render_def)
next
  assume "\<not> lazy e \<and> \<not> hasEnteredViewport e"
  then show "\<not> hasEnteredViewport (fst (step env (SetLazy True) e m))"
    by simp
qed

theorem render_src_follows_lazy_and_flag_witness:
  "\<not> lazy (example_connected \<lparr> lazy := False \<rparr>)
   \<and> \<not> hasEnteredViewport (example_connected \<lparr> lazy := False \<rparr>)
   \<and> vn_src (render (example_connected \<lparr> lazy := False \<rparr>)) = Some ''https://player.example/embed/abc''
   \<and> vn_src (render (fst (step example_env (SetLazy True)
                           (example_connected \<lparr> lazy := False \<rparr>) example_vars))) = None
   \<and> \<not> hasEnteredViewport (fst (step example_env (SetLazy True)
                           (example_connected \<lparr> lazy := False \<rparr>) example_vars))"
proof -
  have h: "\<not> lazy (example_connected \<lparr> lazy := False \<rparr>)
           \<and> \<not> hasEnteredViewport (example_connected \<lparr> lazy := False \<rparr>)"
    by (simp add: example_connected_eq example_embed_def new_Embed_def)
  have s: "srcWithParams (example_connected \<lparr> lazy := False \<rparr>) = ''https://player.example/embed/abc''"
    by (simp add: example_connected_eq)
  from render_src_follows_lazy_and_flag [of "example_connected \<lparr> lazy := False \<rparr>"
      example_env "[]" example_vars] h
  have r: "vn_src (render (example_connected \<lparr> lazy := False \<rparr>))
             = Some (srcWithParams (example_connected \<lparr> lazy := False \<rparr>))
     \<and> vn_src (render (fst (step example_env (SetLazy True)
                           (example_connected \<lparr> lazy := False \<rparr>) example_vars))) = None
     \<and> \<not> hasEnteredViewport (fst (step example_env (SetLazy True)
                           (example_connected \<lparr> lazy := False \<rparr>) example_vars))"
    by blast
  then have r': "vn_src (render (example_connected \<lparr> lazy := False \<rparr>))
             = Some ''https://player.example/embed/abc''
     \<and> vn_src (render (fst (step example_env (SetLazy True)
                           (example_connected \<lparr> lazy := False \<rparr>) example_vars))) = None
     \<and> \<not> hasEnteredViewport (fst (step example_env (SetLazy True)
                           (example_connected \<lparr> lazy := False \<rparr>) example_vars))"
    unfolding s .
  from h r' show ?thesis by blast
qed

end
